theory Spec2Isabelle
  imports Complex_Main
begin

section \<open>Numbers\<close>

text \<open>
  Every quantity of the components (cash, budgets, percentages, credit scores) has the
  TypeScript type \<open>number\<close>. A finite \<open>number\<close> is modelled by a \<open>real\<close>: rounding
  and overflow of the 64-bit representation are left out, all arithmetic is exact. The non-finite
  results that the source can reach from finite inputs (a division by zero, a zero base raised
  to a negative power) are kept as values of their own in \<open>jsnum\<close>.  The sign of a zero is
  not modelled; the only zero divisor that the components build is \<open>1 - 1\<close>, which is
  positive zero.
\<close>

datatype jsnum = Fin real | PosInf | NegInf | NaN

text \<open>\<open>Math.pow(x, e)\<close> for a finite base and an integral exponent.\<close>

definition js_pow :: "real \<Rightarrow> int \<Rightarrow> jsnum" where
  "js_pow x e = (if x = 0 \<and> e < 0 then PosInf else Fin (x powi e))"

text \<open>\<open>a - b\<close> for a finite \<open>a\<close>.\<close>

fun js_sub :: "real \<Rightarrow> jsnum \<Rightarrow> jsnum" where
  "js_sub a (Fin b) = Fin (a - b)"
| "js_sub a PosInf = NegInf"
| "js_sub a NegInf = PosInf"
| "js_sub a NaN = NaN"

text \<open>\<open>a / b\<close> for a finite \<open>a\<close>; a zero divisor is positive zero.\<close>

fun js_div :: "real \<Rightarrow> jsnum \<Rightarrow> jsnum" where
  "js_div a (Fin b) =
     (if b \<noteq> 0 then Fin (a / b)
      else if a = 0 then NaN
      else if 0 < a then PosInf
      else NegInf)"
| "js_div a PosInf = Fin 0"
| "js_div a NegInf = Fin 0"
| "js_div a NaN = NaN"

text \<open>\<open>a * b\<close> for a finite \<open>b\<close>.\<close>

fun js_mul :: "jsnum \<Rightarrow> real \<Rightarrow> jsnum" where
  "js_mul (Fin a) b = Fin (a * b)"
| "js_mul PosInf b = (if b = 0 then NaN else if 0 < b then PosInf else NegInf)"
| "js_mul NegInf b = (if b = 0 then NaN else if 0 < b then NegInf else PosInf)"
| "js_mul NaN b = NaN"

text \<open>\<open>a >= b\<close> for a finite \<open>b\<close>: every comparison with \<open>NaN\<close> is false.\<close>

fun js_ge :: "jsnum \<Rightarrow> real \<Rightarrow> bool" where
  "js_ge (Fin a) b = (b \<le> a)"
| "js_ge PosInf b = True"
| "js_ge NegInf b = False"
| "js_ge NaN b = False"

fun is_finite :: "jsnum \<Rightarrow> bool" where
  "is_finite (Fin a) = True"
| "is_finite PosInf = False"
| "is_finite NegInf = False"
| "is_finite NaN = False"

text \<open>\<open>xs.reduce(f, init)\<close> folds from the left.\<close>

definition reduce :: "('b \<Rightarrow> 'a \<Rightarrow> 'b) \<Rightarrow> 'b \<Rightarrow> 'a list \<Rightarrow> 'b" where
  "reduce f init xs = foldl f init xs"


section \<open>Box office studio (BoxOfficeManager)\<close>

datatype ProjectType = Movie | Series | Documentary

text \<open>
  \<open>getBudgetCategory\<close>: a \<open>switch\<close> on the project type, each case a chain of
  early returns. The \<open>default\<close> branch (\<open>'Standard'\<close>) belongs to no value of the
  type \<open>ProjectType\<close>.
\<close>

fun getBudgetCategory :: "real \<Rightarrow> ProjectType \<Rightarrow> string" where
  "getBudgetCategory budget Movie =
     (if budget < 10000000 then ''Independent''
      else if budget < 75000000 then ''Mid-Budget''
      else ''Blockbuster'')"
| "getBudgetCategory budget Series =
     (if budget < 2000000 then ''Cable TV''
      else if budget < 10000000 then ''Premium TV''
      else ''Prestige Series'')"
| "getBudgetCategory budget Documentary =
     (if budget < 500000 then ''Independent''
      else if budget < 2000000 then ''Network''
      else ''Major Production'')"


section \<open>Automatic production settings (AutoBoxOfficeSettings)\<close>

datatype PreferredProjectType = PreferMovie | PreferSeries | PreferDocumentary | PreferAuto

datatype Aggressiveness = Conservative | Balanced | Aggressive

record AutoBoxOfficeSettings =
  enabled :: bool
  minCashReserve :: real
  maxInvestmentPercentage :: real
  preferredProjectType :: PreferredProjectType
  aggressiveness :: Aggressiveness

text \<open>
  \<open>estimatedBudget\<close> reads the prop \<open>currentCash\<close> and the component's
  \<open>localSettings\<close>; both are arguments here.
\<close>

definition estimatedBudget :: "real \<Rightarrow> AutoBoxOfficeSettings \<Rightarrow> real" where
  "estimatedBudget currentCash localSettings =
     (let availableCash = max 0 (currentCash - minCashReserve localSettings)
      in availableCash * maxInvestmentPercentage localSettings)"

definition canAffordRealisticProduction :: "real \<Rightarrow> AutoBoxOfficeSettings \<Rightarrow> bool" where
  "canAffordRealisticProduction currentCash localSettings =
     (estimatedBudget currentCash localSettings \<ge> 100000)"

text \<open>The settings that \<open>handleReset\<close> installs.\<close>

definition defaultSettings :: AutoBoxOfficeSettings where
  "defaultSettings =
     \<lparr> enabled = True, minCashReserve = 100000, maxInvestmentPercentage = 0.2,
       preferredProjectType = PreferAuto, aggressiveness = Balanced \<rparr>"


section \<open>Companies and the real-company market (RealCompaniesModal)\<close>

text \<open>
  \<open>Company\<close> and \<open>RealCompany\<close> are declared in \<open>hooks/useGameState\<close>; the
  components read the fields below. \<open>cid\<close> is the field \<open>id\<close>.
\<close>

record Company =
  cid :: string
  industry :: string
  marketValue :: real
  currentIncome :: real
  sharesOwned :: real

definition ownedCompanies :: "'a Company_scheme list \<Rightarrow> 'a Company_scheme list" where
  "ownedCompanies realCompanies = filter (\<lambda>company. sharesOwned company > 0) realCompanies"

definition availableCompanies :: "'a Company_scheme list \<Rightarrow> 'a Company_scheme list" where
  "availableCompanies realCompanies = filter (\<lambda>company. sharesOwned company < 100) realCompanies"

definition portfolioValue :: "'a Company_scheme list \<Rightarrow> real" where
  "portfolioValue realCompanies =
     reduce (\<lambda>total company. total + (marketValue company * sharesOwned company / 100)) 0
       (ownedCompanies realCompanies)"

definition totalShares :: "'a Company_scheme list \<Rightarrow> real" where
  "totalShares realCompanies =
     reduce (\<lambda>total company. total + sharesOwned company) 0 (ownedCompanies realCompanies)"

definition dailyIncome :: "'a Company_scheme list \<Rightarrow> real" where
  "dailyIncome realCompanies =
     reduce (\<lambda>total company. total + (currentIncome company * sharesOwned company / 100 * 86400)) 0
       (ownedCompanies realCompanies)"


section \<open>Loan center (LoanManager)\<close>

datatype LoanType = Small | Medium | Large | Emergency

text \<open>
  \<open>LoanOffer\<close> is declared in \<open>hooks/useGameState\<close>; \<open>offer_type\<close> is its field
  \<open>type\<close>. The term of an offer is a whole number of months, hence an \<open>int\<close>.
\<close>

record LoanOffer =
  offer_type :: LoanType
  minAmount :: real
  maxAmount :: real
  baseInterestRate :: real
  termMonths :: int
  creditScoreRequired :: real

text \<open>The props that the calculator and the handler read, and the component's own state.\<close>

record LoanManagerProps =
  loanOffers :: "LoanOffer list"
  creditScore :: real
  onTakeLoan :: "LoanType \<Rightarrow> real \<Rightarrow> bool"

record LoanManagerState =
  selectedLoanType :: LoanType
  loanAmount :: real

text \<open>The state that the two \<open>useState\<close> calls install.\<close>

definition initialLoanState :: LoanManagerState where
  "initialLoanState = \<lparr> selectedLoanType = Small, loanAmount = 1000 \<rparr>"

definition selectedOffer :: "LoanManagerProps \<Rightarrow> LoanManagerState \<Rightarrow> LoanOffer option" where
  "selectedOffer p s = find (\<lambda>offer. offer_type offer = selectedLoanType s) (loanOffers p)"

definition creditMultiplier :: "real \<Rightarrow> real" where
  "creditMultiplier score = max 0.5 (min 2 ((850 - score) / 350))"

definition adjustedInterestRate :: "LoanManagerProps \<Rightarrow> LoanManagerState \<Rightarrow> real" where
  "adjustedInterestRate p s =
     (case selectedOffer p s of
        None \<Rightarrow> 0
      | Some offer \<Rightarrow> baseInterestRate offer * (1 + creditMultiplier (creditScore p) * 0.5))"

text \<open>
  \<open>monthlyPayment\<close> evaluates the source's expression operation by operation. Inside
  \<open>Fin\<close> the operations are exact, while the source rounds each of them to a double. At a
  rate of zero nothing is rounded (\<open>0 / 12\<close>, \<open>amount * 0\<close>, \<open>1 + 0\<close>,
  \<open>Math.pow(1, -n)\<close> and \<open>1 - 1\<close> are exact in doubles too), so there the model
  and the source agree on the value. For a small positive rate they need not: \<open>1 + rate\<close>
  may round to \<open>1\<close> in the source. What is stated below about a positive rate is which
  expression the calculator evaluates and, in the worked example, its value to the cent; whether
  the source's result is finite, and how it compares with the amount, is not concluded from this
  definition.
\<close>

definition monthlyPayment :: "LoanManagerProps \<Rightarrow> LoanManagerState \<Rightarrow> jsnum" where
  "monthlyPayment p s =
     (case selectedOffer p s of
        None \<Rightarrow> Fin 0
      | Some offer \<Rightarrow>
          (let rate = adjustedInterestRate p s / 12
           in js_div (loanAmount s * rate) (js_sub 1 (js_pow (1 + rate) (- termMonths offer)))))"

text \<open>
  The calculator panel, rendered for the selected offer, shows
  \<open>monthlyPayment * selectedOffer.termMonths\<close> as the total cost of the loan.
\<close>

definition totalCost :: "LoanManagerProps \<Rightarrow> LoanManagerState \<Rightarrow> LoanOffer \<Rightarrow> jsnum" where
  "totalCost p s offer = js_mul (monthlyPayment p s) (real_of_int (termMonths offer))"

definition canQualify :: "LoanManagerProps \<Rightarrow> LoanManagerState \<Rightarrow> bool" where
  "canQualify p s =
     (case selectedOffer p s of
        None \<Rightarrow> False
      | Some offer \<Rightarrow> creditScore p \<ge> creditScoreRequired offer)"

text \<open>
  \<open>handleTakeLoan\<close> returns nothing. What it does is the list of calls it makes to the
  prop \<open>onTakeLoan\<close> and the state it leaves; after a successful call it resets the amount
  to the minimum of the offer.
\<close>

datatype LoanCall = TakeLoan LoanType real

definition handleTakeLoan ::
  "LoanManagerProps \<Rightarrow> LoanManagerState \<Rightarrow> LoanCall list \<times> LoanManagerState" where
  "handleTakeLoan p s =
     (case selectedOffer p s of
        None \<Rightarrow> ([], s)
      | Some offer \<Rightarrow>
          if canQualify p s \<and> loanAmount s \<ge> minAmount offer \<and> loanAmount s \<le> maxAmount offer
          then (let success = onTakeLoan p (selectedLoanType s) (loanAmount s)
                in ([TakeLoan (selectedLoanType s) (loanAmount s)],
                    if success then s\<lparr>loanAmount := minAmount offer\<rparr> else s))
          else ([], s))"

text \<open>
  The loan calculator as the specification words it: a clamp of the score term, the adjusted
  rate, and the amortised payment.
\<close>

definition spec_clamp :: "real \<Rightarrow> real \<Rightarrow> real \<Rightarrow> real" where
  "spec_clamp x lo hi = (if x < lo then lo else if hi < x then hi else x)"

definition spec_adjustedRate :: "real \<Rightarrow> real \<Rightarrow> real" where
  "spec_adjustedRate base score = base * (1 + spec_clamp ((850 - score) / 350) 0.5 2.0 * 0.5)"

definition spec_payment :: "real \<Rightarrow> real \<Rightarrow> int \<Rightarrow> real" where
  "spec_payment amount adjustedRate months =
     amount * (adjustedRate / 12) / (1 - (1 + adjustedRate / 12) powi (- months))"

text \<open>Example data: one offer at 8 percent over twelve months, and zero-interest variants.\<close>

definition offer8 :: LoanOffer where
  "offer8 = \<lparr> offer_type = Small, minAmount = 1000, maxAmount = 50000,
              baseInterestRate = 0.08, termMonths = 12, creditScoreRequired = 600 \<rparr>"

definition offer0 :: LoanOffer where
  "offer0 = offer8 \<lparr> baseInterestRate := 0 \<rparr>"

definition accept_all :: "LoanType \<Rightarrow> real \<Rightarrow> bool" where
  "accept_all t a = True"

definition loanProps :: "LoanOffer \<Rightarrow> real \<Rightarrow> LoanManagerProps" where
  "loanProps offer score = \<lparr> loanOffers = [offer], creditScore = score, onTakeLoan = accept_all \<rparr>"

definition noOfferProps :: "real \<Rightarrow> LoanManagerProps" where
  "noOfferProps score = \<lparr> loanOffers = [], creditScore = score, onTakeLoan = accept_all \<rparr>"

definition loanState :: "real \<Rightarrow> LoanManagerState" where
  "loanState amount = \<lparr> selectedLoanType = Small, loanAmount = amount \<rparr>"


section \<open>Share trading on the cards (CompanyCard, RealCompanyCard)\<close>

text \<open>
  A card does not trade: a click on one of its buttons calls the prop \<open>onBuyShares\<close> or
  \<open>onSellShares\<close> with the company's id and the percentage of the button.
\<close>

datatype ShareCall = BuyShares string real | SellShares string real

definition sharesBuyable :: "Company \<Rightarrow> real" where
  "sharesBuyable c = 100 - sharesOwned c"

text \<open>
  \<open>CompanyCard\<close> renders the buy buttons for 5, 10 and 20 percent when
  \<open>sharesBuyable > 0\<close>, each with \<open>disabled = sharesBuyable < percentage\<close>, and the
  sell buttons when \<open>sharesOwned > 0\<close>, each with \<open>disabled = sharesOwned < percentage\<close>.
  A button is a pair of its percentage and its \<open>disabled\<close> flag.
\<close>

definition companyCard_buyButtons :: "Company \<Rightarrow> (real \<times> bool) list" where
  "companyCard_buyButtons c =
     (if sharesBuyable c > 0
      then map (\<lambda>percentage. (percentage, sharesBuyable c < percentage)) [5, 10, 20]
      else [])"

definition companyCard_sellButtons :: "Company \<Rightarrow> (real \<times> bool) list" where
  "companyCard_sellButtons c =
     (if sharesOwned c > 0
      then map (\<lambda>percentage. (percentage, sharesOwned c < percentage)) [5, 10, 20]
      else [])"

text \<open>The percentages whose button reacts to a click.\<close>

definition clickable :: "(real \<times> bool) list \<Rightarrow> real list" where
  "clickable buttons = map fst (filter (\<lambda>button. \<not> snd button) buttons)"

definition companyCard_buyCalls :: "Company \<Rightarrow> ShareCall list" where
  "companyCard_buyCalls c = map (BuyShares (cid c)) (clickable (companyCard_buyButtons c))"

definition companyCard_sellCalls :: "Company \<Rightarrow> ShareCall list" where
  "companyCard_sellCalls c = map (SellShares (cid c)) (clickable (companyCard_sellButtons c))"

text \<open>
  \<open>RealCompanyCard\<close> renders a button for each of 1, 5 and 10 percent that passes the
  filter (\<open>p <= sharesBuyable\<close> to buy, \<open>p <= sharesOwned\<close> to sell); none of them is
  ever disabled.
\<close>

definition realCompanyCard_buyCalls :: "Company \<Rightarrow> ShareCall list" where
  "realCompanyCard_buyCalls c =
     (if sharesBuyable c > 0
      then map (BuyShares (cid c)) (filter (\<lambda>p. p \<le> sharesBuyable c) [1, 5, 10])
      else [])"

definition realCompanyCard_sellCalls :: "Company \<Rightarrow> ShareCall list" where
  "realCompanyCard_sellCalls c =
     (if sharesOwned c > 0
      then map (SellShares (cid c)) (filter (\<lambda>p. p \<le> sharesOwned c) [1, 5, 10])
      else [])"

text \<open>The price line of \<open>RealCompanyCard\<close>: \<open>Cost: marketValue * 0.01 per 1%\<close>.\<close>

definition costPerPercent :: "Company \<Rightarrow> real" where
  "costPerPercent c = marketValue c * 0.01"

text \<open>
  \<open>RealCompaniesModal\<close> renders one \<open>RealCompanyCard\<close> per listed company and hands it
  the company, the two callbacks, \<open>formatCurrency\<close> and its own prop \<open>currentCash\<close>.
  The card's props have no field for the cash, so the calls it can make are those of the card.
\<close>

definition modalCard_buyCalls :: "real \<Rightarrow> Company \<Rightarrow> ShareCall list" where
  "modalCard_buyCalls cash c = realCompanyCard_buyCalls c"

datatype Card = VentureCard | ListedCard

fun cardCalls :: "Card \<Rightarrow> Company \<Rightarrow> ShareCall list" where
  "cardCalls VentureCard c = companyCard_buyCalls c @ companyCard_sellCalls c"
| "cardCalls ListedCard c = realCompanyCard_buyCalls c @ realCompanyCard_sellCalls c"

text \<open>
  A click on the button for \<open>q\<close> percent. The button's handler
  (\<open>() => onBuyShares(company.id, percentage)\<close>) returns nothing; what the click does is
  the list of calls it makes: the call of the button when the card renders it enabled, no call
  when the button is disabled or not rendered.
\<close>

definition clickBuy :: "Card \<Rightarrow> Company \<Rightarrow> real \<Rightarrow> ShareCall list" where
  "clickBuy kind c q =
     (if BuyShares (cid c) q \<in> set (cardCalls kind c) then [BuyShares (cid c) q] else [])"

definition clickSell :: "Card \<Rightarrow> Company \<Rightarrow> real \<Rightarrow> ShareCall list" where
  "clickSell kind c q =
     (if SellShares (cid c) q \<in> set (cardCalls kind c) then [SellShares (cid c) q] else [])"

text \<open>
  Modelled from the spec: the functions behind \<open>onBuyShares\<close> and \<open>onSellShares\<close>
  (in \<open>hooks/useGameState\<close>) are missing from the sources. The specification says of a buy
  that ownership increases by exactly the percentage, and of a sell that it decreases by
  exactly the percentage.
\<close>

fun applyShareCall :: "ShareCall \<Rightarrow> Company \<Rightarrow> Company" where
  "applyShareCall (BuyShares i q) c =
     (if i = cid c then c\<lparr>sharesOwned := sharesOwned c + q\<rparr> else c)"
| "applyShareCall (SellShares i q) c =
     (if i = cid c then c\<lparr>sharesOwned := sharesOwned c - q\<rparr> else c)"

text \<open>
  A sequence of trades on one card: each call has to be one that the card, showing the
  current holding, can make; \<open>None\<close> when some call is not.
\<close>

fun tradeSeq :: "Card \<Rightarrow> ShareCall list \<Rightarrow> Company \<Rightarrow> Company option" where
  "tradeSeq kind [] c = Some c"
| "tradeSeq kind (call # calls) c =
     (if call \<in> set (cardCalls kind c) then tradeSeq kind calls (applyShareCall call c)
      else None)"

definition ownershipInRange :: "Company \<Rightarrow> bool" where
  "ownershipInRange c = (0 \<le> sharesOwned c \<and> sharesOwned c \<le> 100)"

text \<open>Example holdings.\<close>

definition holding :: "real \<Rightarrow> Company" where
  "holding owned = \<lparr> cid = ''acme'', industry = ''Technology'', marketValue = 1000000,
                     currentIncome = 50, sharesOwned = owned \<rparr>"


section \<open>Starting a production (BoxOfficeManager)\<close>



record BoxOfficeProps =
  filmCompanies :: "Company list"
  currentCash :: real
  onStartProject :: "string \<Rightarrow> real \<Rightarrow> ProjectType \<Rightarrow> bool"

record BoxOfficeState =
  selectedCompanyId :: string
  selectedProjectType :: ProjectType
  budget :: real

text \<open>The values of the three \<open>useState\<close> calls.\<close>

definition initialBoxOfficeState :: BoxOfficeState where
  "initialBoxOfficeState =
     \<lparr> selectedCompanyId = [], selectedProjectType = Movie, budget = 1000000 \<rparr>"

text \<open>
  The state after mounting: the initialiser passed to the fourth \<open>useState\<close> runs once and,
  when there is a film company and no company is selected yet, selects the first one.
\<close>

definition mountedBoxOfficeState :: "BoxOfficeProps \<Rightarrow> BoxOfficeState" where
  "mountedBoxOfficeState p =
     (if length (filmCompanies p) > 0 \<and> selectedCompanyId initialBoxOfficeState = []
      then initialBoxOfficeState\<lparr>selectedCompanyId := cid (hd (filmCompanies p))\<rparr>
      else initialBoxOfficeState)"

definition selectedCompany :: "BoxOfficeProps \<Rightarrow> BoxOfficeState \<Rightarrow> Company option" where
  "selectedCompany p s = find (\<lambda>c. cid c = selectedCompanyId s) (filmCompanies p)"











text \<open>
  Example props: one film company, the given cash, and an engine that accepts every start.
\<close>

definition start_all :: "string \<Rightarrow> real \<Rightarrow> ProjectType \<Rightarrow> bool" where
  "start_all i b t = True"

definition studio :: Company where
  "studio = \<lparr> cid = ''studio-1'', industry = ''Film & TV Production'', marketValue = 5000000,
              currentIncome = 100, sharesOwned = 100 \<rparr>"

definition studioProps :: "real \<Rightarrow> BoxOfficeProps" where
  "studioProps cash =
     \<lparr> filmCompanies = [studio], currentCash = cash, onStartProject = start_all \<rparr>"


definition studioState :: "ProjectType \<Rightarrow> real \<Rightarrow> BoxOfficeState" where
  "studioState t b = \<lparr> selectedCompanyId = ''studio-1'', selectedProjectType = t, budget = b \<rparr>"


section \<open>Properties\<close>

subsection \<open>Folding a sum\<close>

lemma reduce_add: "reduce (\<lambda>total x. total + g x) (a::real) xs = a + sum_list (map g xs)"
  unfolding reduce_def by (induction xs arbitrary: a) simp_all

subsection \<open>Budget categories\<close>

text \<open>
  C8. The budget category is a function of the project type and the budget alone. For a movie
  it is a step function with the thresholds 10,000,000 and 75,000,000: below the first the
  category is Independent, from the first up to the second Mid-Budget, from the second on
  Blockbuster. A movie budget of 5,000,000 is Independent, one of 50,000,000 Mid-Budget.
\<close>

theorem getBudgetCategory_movie_steps:
  "(b < 10000000 \<longrightarrow> getBudgetCategory b Movie = ''Independent'') \<and>
   (10000000 \<le> b \<and> b < 75000000 \<longrightarrow> getBudgetCategory b Movie = ''Mid-Budget'') \<and>
   (75000000 \<le> b \<longrightarrow> getBudgetCategory b Movie = ''Blockbuster'') \<and>
   getBudgetCategory 5000000 Movie = ''Independent'' \<and>
   getBudgetCategory 50000000 Movie = ''Mid-Budget''"
  by simp

theorem getBudgetCategory_movie_steps_witness:
  "(9999999::real) < 10000000 \<and> getBudgetCategory 9999999 Movie = ''Independent'' \<and>
   (10000000::real) \<le> 10000000 \<and> (10000000::real) < 75000000 \<and>
   getBudgetCategory 10000000 Movie = ''Mid-Budget'' \<and>
   (75000000::real) \<le> 75000000 \<and> getBudgetCategory 75000000 Movie = ''Blockbuster''"
  using getBudgetCategory_movie_steps [of 9999999]
    getBudgetCategory_movie_steps [of 10000000]
    getBudgetCategory_movie_steps [of 75000000]
  by simp

subsection \<open>The automatic investment estimate\<close>

text \<open>
  C9 (as the code has it). The estimate is
  \<open>max(0, currentCash - minCashReserve) * maxInvestmentPercentage\<close>. It is zero whenever
  the cash does not exceed the reserve, and the flag \<open>canAffordRealisticProduction\<close> holds
  exactly when the estimate is at least 100,000. The estimate is not negative when the
  investment percentage is not negative; the component takes the percentage from its
  \<open>settings\<close> prop as it comes, and with a negative one and cash above the reserve the
  estimate is negative.
\<close>

theorem estimatedBudget_props:
  "estimatedBudget cash s =
     max 0 (cash - minCashReserve s) * maxInvestmentPercentage s \<and>
   (0 \<le> maxInvestmentPercentage s \<longrightarrow> 0 \<le> estimatedBudget cash s) \<and>
   (cash \<le> minCashReserve s \<longrightarrow> estimatedBudget cash s = 0) \<and>
   (canAffordRealisticProduction cash s \<longleftrightarrow> estimatedBudget cash s \<ge> 100000)"
  by (simp add: estimatedBudget_def canAffordRealisticProduction_def max_def)

theorem estimatedBudget_props_witness:
  "(0::real) \<le> maxInvestmentPercentage defaultSettings \<and>
   estimatedBudget 1100000 defaultSettings = 200000 \<and>
   canAffordRealisticProduction 1100000 defaultSettings \<and>
   (50000::real) \<le> minCashReserve defaultSettings \<and>
   estimatedBudget 50000 defaultSettings = 0 \<and>
   \<not> canAffordRealisticProduction 50000 defaultSettings"
  using estimatedBudget_props [of 1100000 defaultSettings]
    estimatedBudget_props [of 50000 defaultSettings]
  by (simp add: defaultSettings_def)

theorem estimatedBudget_negative_counterexample:
  "estimatedBudget 1100000 (defaultSettings\<lparr>maxInvestmentPercentage := - 0.2\<rparr>) = - 200000 \<and>
   estimatedBudget 1100000 (defaultSettings\<lparr>maxInvestmentPercentage := - 0.2\<rparr>) < 0"
  by (simp add: estimatedBudget_def defaultSettings_def)

subsection \<open>Portfolio aggregation\<close>

text \<open>
  C10. The three portfolio figures range over the companies with \<open>sharesOwned > 0\<close> only:
  the portfolio value is the sum of \<open>marketValue * sharesOwned / 100\<close>, the total of shares
  the sum of \<open>sharesOwned\<close>, and the daily income the sum of
  \<open>currentIncome * sharesOwned / 100 * 86400\<close>.
\<close>

theorem portfolio_aggregation:
  "portfolioValue cs =
     (\<Sum>c \<leftarrow> filter (\<lambda>c. sharesOwned c > 0) cs. marketValue c * sharesOwned c / 100) \<and>
   totalShares cs = (\<Sum>c \<leftarrow> filter (\<lambda>c. sharesOwned c > 0) cs. sharesOwned c) \<and>
   dailyIncome cs =
     (\<Sum>c \<leftarrow> filter (\<lambda>c. sharesOwned c > 0) cs. currentIncome c * sharesOwned c / 100 * 86400)"
  by (simp add: portfolioValue_def totalShares_def dailyIncome_def ownedCompanies_def reduce_add)

subsection \<open>The loan calculator\<close>

lemma creditMultiplier_bounds: "1 / 2 \<le> creditMultiplier sc \<and> creditMultiplier sc \<le> 2"
  by (simp add: creditMultiplier_def max_def min_def)

lemma creditMultiplier_clamp: "creditMultiplier sc = spec_clamp ((850 - sc) / 350) 0.5 2.0"
  by (simp add: creditMultiplier_def spec_clamp_def max_def min_def)

lemma adjusted_eq:
  assumes "selectedOffer p s = Some offer"
  shows "adjustedInterestRate p s = spec_adjustedRate (baseInterestRate offer) (creditScore p)"
  using assms by (simp add: adjustedInterestRate_def spec_adjustedRate_def creditMultiplier_clamp)

lemma adjusted_ge_base:
  assumes "selectedOffer p s = Some offer" and "0 \<le> baseInterestRate offer"
  shows "baseInterestRate offer \<le> adjustedInterestRate p s"
proof -
  have "0 \<le> creditMultiplier (creditScore p) * 0.5"
    using creditMultiplier_bounds [of "creditScore p"] by simp
  then have "baseInterestRate offer * 1 \<le> baseInterestRate offer * (1 + creditMultiplier (creditScore p) * 0.5)"
    using assms(2) by (intro mult_left_mono) simp_all
  then show ?thesis using assms(1) by (simp add: adjustedInterestRate_def)
qed

lemma payment_formula:
  assumes "selectedOffer p s = Some offer"
    and "1 + adjustedInterestRate p s / 12 \<noteq> 0"
    and "(1 + adjustedInterestRate p s / 12) powi (- termMonths offer) \<noteq> 1"
  shows "monthlyPayment p s =
     Fin (spec_payment (loanAmount s) (adjustedInterestRate p s) (termMonths offer))"
  using assms by (simp add: monthlyPayment_def Let_def js_pow_def spec_payment_def)

lemma payment_zero_rate:
  assumes "selectedOffer p s = Some offer" and "baseInterestRate offer = 0"
  shows "monthlyPayment p s = NaN"
  using assms by (simp add: monthlyPayment_def adjustedInterestRate_def Let_def js_pow_def)

lemma selected_example:
  "selectedOffer (loanProps offer sc) (loanState a) = (if offer_type offer = Small then Some offer else None)"
  by (simp add: selectedOffer_def loanProps_def loanState_def)

lemma selected_offer8 [simp]: "selectedOffer (loanProps offer8 sc) (loanState a) = Some offer8"
  by (simp add: selected_example offer8_def)

lemma selected_offer0 [simp]: "selectedOffer (loanProps offer0 sc) (loanState a) = Some offer0"
  by (simp add: selected_example offer0_def offer8_def)

lemma example_rate: "adjustedInterestRate (loanProps offer8 850) (loanState 10000) = 0.10"
  by (simp add: adjustedInterestRate_def creditMultiplier_def) (simp add: offer8_def loanProps_def)

lemma example_discount:
  "(121 / 120 :: real) powi (- 12) = 8916100448256000000000000 / 9849732675807611094711841"
  by (simp add: power_int_minus power_divide)

lemma example_payment:
  "monthlyPayment (loanProps offer8 850) (loanState 10000) =
     Fin (2462433168951902773677960250 / 2800896682654833284135523)"
  by (simp add: monthlyPayment_def example_rate Let_def)
     (simp add: offer8_def loanState_def js_pow_def example_discount)

text \<open>
  C1. The credit multiplier is the score term \<open>(850 - creditScore) / 350\<close> clamped to
  \<open>[0.5, 2.0]\<close>; the adjusted rate is the base rate times \<open>1 + multiplier * 0.5\<close>; and
  wherever the amortisation formula has a value (the monthly growth factor is not zero and the
  discount factor is not one) the monthly payment is that value. For an amount of 10,000 at a
  base rate of 0.08 over twelve months and a credit score of 850 the multiplier is 0.5, the
  adjusted rate 0.10 and the monthly payment 879.16 to the cent.
\<close>

theorem loan_pricing:
  "creditMultiplier sc = spec_clamp ((850 - sc) / 350) 0.5 2.0 \<and>
   (selectedOffer p s = Some offer \<longrightarrow>
      adjustedInterestRate p s = spec_adjustedRate (baseInterestRate offer) (creditScore p)) \<and>
   (selectedOffer p s = Some offer \<and>
    1 + spec_adjustedRate (baseInterestRate offer) (creditScore p) / 12 \<noteq> 0 \<and>
    (1 + spec_adjustedRate (baseInterestRate offer) (creditScore p) / 12) powi (- termMonths offer) \<noteq> 1 \<longrightarrow>
      monthlyPayment p s =
        Fin (spec_payment (loanAmount s)
               (spec_adjustedRate (baseInterestRate offer) (creditScore p)) (termMonths offer))) \<and>
   creditMultiplier 850 = 0.5 \<and>
   adjustedInterestRate (loanProps offer8 850) (loanState 10000) = 0.10 \<and>
   (case monthlyPayment (loanProps offer8 850) (loanState 10000) of
      Fin m \<Rightarrow> 879.155 \<le> m \<and> m < 879.165
    | _ \<Rightarrow> False)"
proof -
  have "creditMultiplier 850 = 0.5" by (simp add: creditMultiplier_def)
  moreover have "selectedOffer p s = Some offer \<Longrightarrow>
      1 + spec_adjustedRate (baseInterestRate offer) (creditScore p) / 12 \<noteq> 0 \<Longrightarrow>
      (1 + spec_adjustedRate (baseInterestRate offer) (creditScore p) / 12) powi (- termMonths offer) \<noteq> 1 \<Longrightarrow>
      monthlyPayment p s =
        Fin (spec_payment (loanAmount s)
               (spec_adjustedRate (baseInterestRate offer) (creditScore p)) (termMonths offer))"
    using payment_formula [of p s offer] by (simp add: adjusted_eq)
  ultimately show ?thesis
    using creditMultiplier_clamp [of sc] adjusted_eq [of p s offer] example_rate
    by (simp add: example_payment)
qed

theorem loan_pricing_witness:
  "selectedOffer (loanProps offer8 700) (loanState 2000) = Some offer8 \<and>
   1 + spec_adjustedRate (baseInterestRate offer8) 700 / 12 \<noteq> 0 \<and>
   (1 + spec_adjustedRate (baseInterestRate offer8) 700 / 12) powi (- termMonths offer8) \<noteq> 1 \<and>
   adjustedInterestRate (loanProps offer8 700) (loanState 2000) = spec_adjustedRate 0.08 700 \<and>
   monthlyPayment (loanProps offer8 700) (loanState 2000) =
     Fin (spec_payment 2000 (spec_adjustedRate 0.08 700) 12)"
proof -
  have r: "spec_adjustedRate (baseInterestRate offer8) 700 = 0.1" 
    by (simp add: spec_adjustedRate_def spec_clamp_def offer8_def)
  have h: "1 + spec_adjustedRate (baseInterestRate offer8) 700 / 12 \<noteq> 0"
     "(1 + spec_adjustedRate (baseInterestRate offer8) 700 / 12) powi (- termMonths offer8) \<noteq> 1"
    unfolding r by (simp_all add: offer8_def example_discount)
  have c: "creditScore (loanProps offer8 700) = 700" "loanAmount (loanState 2000) = 2000"
      "baseInterestRate offer8 = 0.08" "termMonths offer8 = 12"
    by (simp_all add: loanProps_def loanState_def offer8_def)
  show ?thesis
    using loan_pricing [of 700 "loanProps offer8 700" "loanState 2000" offer8] h
    by (simp add: c)
qed

text \<open>
  C2 (as the code has it). The calculator has no branch for a monthly rate of zero; its only
  guard is the one for a missing offer, where the payment is \<open>0\<close>. For an offer with a base
  rate of zero the monthly rate is zero, the calculator divides zero by zero, and the monthly
  payment is \<open>NaN\<close>: neither a finite number nor the amount divided by the term.
\<close>

theorem monthlyPayment_zero_rate:
  "(selectedOffer p s = Some offer \<and> baseInterestRate offer = 0 \<longrightarrow>
      adjustedInterestRate p s / 12 = 0 \<and> monthlyPayment p s = NaN \<and>
      \<not> is_finite (monthlyPayment p s) \<and>
      monthlyPayment p s \<noteq> Fin (loanAmount s / real_of_int (termMonths offer))) \<and>
   (selectedOffer p s = None \<longrightarrow> monthlyPayment p s = Fin 0)"
proof -
  have "selectedOffer p s = Some offer \<Longrightarrow> baseInterestRate offer = 0 \<Longrightarrow>
      adjustedInterestRate p s / 12 = 0"
    by (simp add: adjustedInterestRate_def)
  moreover have "selectedOffer p s = None \<Longrightarrow> monthlyPayment p s = Fin 0"
    by (simp add: monthlyPayment_def)
  ultimately show ?thesis
    using payment_zero_rate [of p s offer] by auto
qed

theorem monthlyPayment_zero_rate_witness:
  "selectedOffer (loanProps offer0 700) (loanState 3000) = Some offer0 \<and>
   baseInterestRate offer0 = 0 \<and>
   monthlyPayment (loanProps offer0 700) (loanState 3000) = NaN \<and>
   selectedOffer (noOfferProps 700) (loanState 3000) = None \<and>
   monthlyPayment (noOfferProps 700) (loanState 3000) = Fin 0"
proof -
  have b: "baseInterestRate offer0 = 0" by (simp add: offer0_def)
  have sel: "selectedOffer (loanProps offer0 700) (loanState 3000) = Some offer0"
    by (rule selected_offer0)
  have n: "selectedOffer (noOfferProps 700) (loanState 3000) = None"
    by (simp add: selectedOffer_def noOfferProps_def)
  from monthlyPayment_zero_rate [of "loanProps offer0 700" "loanState 3000" offer0] sel b
  have nan: "monthlyPayment (loanProps offer0 700) (loanState 3000) = NaN" by blast
  from monthlyPayment_zero_rate [of "noOfferProps 700" "loanState 3000" offer0] n
  have zero: "monthlyPayment (noOfferProps 700) (loanState 3000) = Fin 0" by blast
  from sel b nan n zero show ?thesis by blast
qed

theorem monthlyPayment_zero_rate_counterexample:
  "adjustedInterestRate (loanProps offer0 700) (loanState 12000) / 12 = 0 \<and>
   monthlyPayment (loanProps offer0 700) (loanState 12000) = NaN \<and>
   monthlyPayment (loanProps offer0 700) (loanState 12000)
     \<noteq> Fin (12000 / real_of_int (termMonths offer0)) \<and>
   \<not> is_finite (monthlyPayment (loanProps offer0 700) (loanState 12000))"
proof -
  have b: "baseInterestRate offer0 = 0" by (simp add: offer0_def)
  have "monthlyPayment (loanProps offer0 700) (loanState 12000) = NaN"
    by (rule payment_zero_rate [OF selected_offer0 b])
  moreover have "adjustedInterestRate (loanProps offer0 700) (loanState 12000) = 0"
    by (simp add: adjustedInterestRate_def b)
  ultimately show ?thesis by simp
qed

text \<open>
  C6 (as the code has it). For an offer whose base rate is not negative the adjusted rate is at
  least the base rate, whatever the credit score. That the total repaid
  (\<open>monthlyPayment * termMonths\<close>) is at least the amount does not hold for every offer:
  at a base rate of zero the payment and the total are \<open>NaN\<close>, and the comparison of the
  total with the amount is false.
\<close>

theorem adjusted_rate_and_zero_rate_total:
  "(selectedOffer p s = Some offer \<and> 0 \<le> baseInterestRate offer \<longrightarrow>
      baseInterestRate offer \<le> adjustedInterestRate p s) \<and>
   (selectedOffer p s = Some offer \<and> baseInterestRate offer = 0 \<longrightarrow>
      totalCost p s offer = NaN \<and> \<not> js_ge (totalCost p s offer) (loanAmount s))"
proof -
  have "selectedOffer p s = Some offer \<Longrightarrow> baseInterestRate offer = 0 \<Longrightarrow>
      totalCost p s offer = NaN"
    using payment_zero_rate [of p s offer] by (simp add: totalCost_def)
  then show ?thesis
    using adjusted_ge_base [of p s offer] by auto
qed

theorem adjusted_rate_and_zero_rate_total_witness:
  "selectedOffer (loanProps offer8 700) (loanState 5000) = Some offer8 \<and>
   0 \<le> baseInterestRate offer8 \<and>
   baseInterestRate offer8 \<le> adjustedInterestRate (loanProps offer8 700) (loanState 5000) \<and>
   selectedOffer (loanProps offer0 700) (loanState 5000) = Some offer0 \<and>
   baseInterestRate offer0 = 0 \<and>
   totalCost (loanProps offer0 700) (loanState 5000) offer0 = NaN"
proof -
  have b8: "0 \<le> baseInterestRate offer8" by (simp add: offer8_def)
  have b0: "baseInterestRate offer0 = 0" by (simp add: offer0_def)
  have s8: "selectedOffer (loanProps offer8 700) (loanState 5000) = Some offer8"
    by (rule selected_offer8)
  have s0: "selectedOffer (loanProps offer0 700) (loanState 5000) = Some offer0"
    by (rule selected_offer0)
  from adjusted_rate_and_zero_rate_total [of "loanProps offer8 700" "loanState 5000" offer8] s8 b8
  have ge: "baseInterestRate offer8 \<le> adjustedInterestRate (loanProps offer8 700) (loanState 5000)"
    by blast
  from adjusted_rate_and_zero_rate_total [of "loanProps offer0 700" "loanState 5000" offer0] s0 b0
  have nan: "totalCost (loanProps offer0 700) (loanState 5000) offer0 = NaN" by blast
  from s8 b8 ge s0 b0 nan show ?thesis by blast
qed

theorem interest_zero_rate_counterexample:
  "selectedOffer (loanProps offer0 700) (loanState 12000) = Some offer0 \<and>
   0 < termMonths offer0 \<and>
   minAmount offer0 \<le> loanAmount (loanState 12000) \<and>
   loanAmount (loanState 12000) \<le> maxAmount offer0 \<and>
   totalCost (loanProps offer0 700) (loanState 12000) offer0 = NaN \<and>
   \<not> js_ge (totalCost (loanProps offer0 700) (loanState 12000) offer0)
       (loanAmount (loanState 12000))"
proof -
  have b: "baseInterestRate offer0 = 0" by (simp add: offer0_def)
  have "monthlyPayment (loanProps offer0 700) (loanState 12000) = NaN"
    by (rule payment_zero_rate [OF selected_offer0 b])
  then have "totalCost (loanProps offer0 700) (loanState 12000) offer0 = NaN"
    by (simp add: totalCost_def)
  moreover have "0 < termMonths offer0" "minAmount offer0 \<le> loanAmount (loanState 12000)"
      "loanAmount (loanState 12000) \<le> maxAmount offer0"
    by (simp_all add: offer0_def offer8_def loanState_def)
  ultimately show ?thesis by simp
qed

subsection \<open>Applying for a loan\<close>

lemma handleTakeLoan_accepted:
  assumes "selectedOffer p s = Some offer"
    and "creditScoreRequired offer \<le> creditScore p"
    and "minAmount offer \<le> loanAmount s" and "loanAmount s \<le> maxAmount offer"
  shows "fst (handleTakeLoan p s) = [TakeLoan (selectedLoanType s) (loanAmount s)]"
  using assms by (simp add: handleTakeLoan_def canQualify_def Let_def)

lemma handleTakeLoan_rejected:
  assumes "selectedOffer p s = Some offer"
    and "\<not> (creditScoreRequired offer \<le> creditScore p \<and>
             minAmount offer \<le> loanAmount s \<and> loanAmount s \<le> maxAmount offer)"
  shows "handleTakeLoan p s = ([], s)"
  using assms by (auto simp add: handleTakeLoan_def canQualify_def Let_def)

text \<open>
  C3 (as the code has it). With an offer selected, \<open>handleTakeLoan\<close> calls
  \<open>onTakeLoan\<close> if and only if the credit score reaches the offer's requirement and the
  amount lies within the offer's range; the call carries the selected type and the requested
  amount itself, never a clamped one. A rejected application does nothing at all: no call, the
  state as it was, and nothing that tells which bound failed. Without a selected offer nothing
  happens either.
\<close>

theorem handleTakeLoan_decision:
  "(selectedOffer p s = Some offer \<longrightarrow>
      (fst (handleTakeLoan p s) \<noteq> [] \<longleftrightarrow>
         creditScore p \<ge> creditScoreRequired offer \<and>
         minAmount offer \<le> loanAmount s \<and> loanAmount s \<le> maxAmount offer) \<and>
      (fst (handleTakeLoan p s) \<noteq> [] \<longrightarrow>
         fst (handleTakeLoan p s) = [TakeLoan (selectedLoanType s) (loanAmount s)]) \<and>
      (fst (handleTakeLoan p s) = [] \<longrightarrow> handleTakeLoan p s = ([], s))) \<and>
   (selectedOffer p s = None \<longrightarrow> handleTakeLoan p s = ([], s))"
proof -
  have none: "selectedOffer p s = None \<Longrightarrow> handleTakeLoan p s = ([], s)"
    by (simp add: handleTakeLoan_def)
  show ?thesis
    using handleTakeLoan_accepted [of p s offer] handleTakeLoan_rejected [of p s offer] none
    by (cases "creditScoreRequired offer \<le> creditScore p \<and>
             minAmount offer \<le> loanAmount s \<and> loanAmount s \<le> maxAmount offer") auto
qed

theorem handleTakeLoan_decision_witness:
  "selectedOffer (loanProps offer8 700) (loanState 2000) = Some offer8 \<and>
   creditScore (loanProps offer8 700) \<ge> creditScoreRequired offer8 \<and>
   minAmount offer8 \<le> loanAmount (loanState 2000) \<and>
   loanAmount (loanState 2000) \<le> maxAmount offer8 \<and>
   fst (handleTakeLoan (loanProps offer8 700) (loanState 2000)) = [TakeLoan Small 2000] \<and>
   selectedOffer (noOfferProps 700) (loanState 2000) = None \<and>
   handleTakeLoan (noOfferProps 700) (loanState 2000) = ([], loanState 2000)"
proof -
  have h: "creditScore (loanProps offer8 700) \<ge> creditScoreRequired offer8 \<and>
      minAmount offer8 \<le> loanAmount (loanState 2000) \<and>
      loanAmount (loanState 2000) \<le> maxAmount offer8"
    by (simp add: offer8_def loanState_def loanProps_def)
  have a: "loanAmount (loanState 2000) = 2000" "selectedLoanType (loanState 2000) = Small"
    by (simp_all add: loanState_def)
  have n: "selectedOffer (noOfferProps 700) (loanState 2000) = None"
    by (simp add: selectedOffer_def noOfferProps_def)
  have sel: "selectedOffer (loanProps offer8 700) (loanState 2000) = Some offer8"
    by (rule selected_offer8)
  from handleTakeLoan_decision [of "loanProps offer8 700" "loanState 2000" offer8] sel h
  have "fst (handleTakeLoan (loanProps offer8 700) (loanState 2000))
      = [TakeLoan (selectedLoanType (loanState 2000)) (loanAmount (loanState 2000))]"
    by blast
  then have acc: "fst (handleTakeLoan (loanProps offer8 700) (loanState 2000)) = [TakeLoan Small 2000]"
    by (simp only: a)
  from handleTakeLoan_decision [of "noOfferProps 700" "loanState 2000" offer8] n
  have rej: "handleTakeLoan (noOfferProps 700) (loanState 2000) = ([], loanState 2000)"
    by blast
  from sel h acc n rej show ?thesis by blast
qed

theorem handleTakeLoan_silent_counterexample:
  "creditScore (loanProps offer8 500) < creditScoreRequired offer8 \<and>
   minAmount offer8 \<le> loanAmount (loanState 2000) \<and>
   loanAmount (loanState 2000) \<le> maxAmount offer8 \<and>
   handleTakeLoan (loanProps offer8 500) (loanState 2000) = ([], loanState 2000) \<and>
   creditScore (loanProps offer8 700) \<ge> creditScoreRequired offer8 \<and>
   maxAmount offer8 < loanAmount (loanState 60000) \<and>
   handleTakeLoan (loanProps offer8 700) (loanState 60000) = ([], loanState 60000)"
proof -
  have "handleTakeLoan (loanProps offer8 500) (loanState 2000) = ([], loanState 2000)"
    by (rule handleTakeLoan_rejected [OF selected_offer8]) (simp add: offer8_def loanProps_def)
  moreover have "handleTakeLoan (loanProps offer8 700) (loanState 60000) = ([], loanState 60000)"
    by (rule handleTakeLoan_rejected [OF selected_offer8]) (simp add: offer8_def loanState_def)
  moreover have "creditScore (loanProps offer8 500) < creditScoreRequired offer8"
      "minAmount offer8 \<le> loanAmount (loanState 2000)"
      "loanAmount (loanState 2000) \<le> maxAmount offer8"
      "creditScore (loanProps offer8 700) \<ge> creditScoreRequired offer8"
      "maxAmount offer8 < loanAmount (loanState 60000)"
    by (simp_all add: offer8_def loanState_def loanProps_def)
  ultimately show ?thesis by simp
qed

subsection \<open>Share trading\<close>

lemma clickable_iff: "q \<in> set (clickable buttons) \<longleftrightarrow> (q, False) \<in> set buttons"
  by (force simp add: clickable_def)

lemma companyCard_buy_iff:
  "BuyShares i q \<in> set (companyCard_buyCalls c) \<longleftrightarrow>
     i = cid c \<and> q \<in> {5, 10, 20} \<and> sharesOwned c + q \<le> 100"
  by (auto simp add: companyCard_buyCalls_def companyCard_buyButtons_def sharesBuyable_def
      clickable_iff image_iff)

lemma companyCard_sell_iff:
  "SellShares i q \<in> set (companyCard_sellCalls c) \<longleftrightarrow>
     i = cid c \<and> q \<in> {5, 10, 20} \<and> q \<le> sharesOwned c"
  by (auto simp add: companyCard_sellCalls_def companyCard_sellButtons_def clickable_iff image_iff)

lemma realCompanyCard_buy_iff:
  "BuyShares i q \<in> set (realCompanyCard_buyCalls c) \<longleftrightarrow>
     i = cid c \<and> q \<in> {1, 5, 10} \<and> sharesOwned c + q \<le> 100"
  by (auto simp add: realCompanyCard_buyCalls_def sharesBuyable_def)

lemma realCompanyCard_sell_iff:
  "SellShares i q \<in> set (realCompanyCard_sellCalls c) \<longleftrightarrow>
     i = cid c \<and> q \<in> {1, 5, 10} \<and> q \<le> sharesOwned c"
  by (auto simp add: realCompanyCard_sellCalls_def)

lemma buyCalls_only_buy:
  "SellShares i q \<notin> set (companyCard_buyCalls c)" "SellShares i q \<notin> set (realCompanyCard_buyCalls c)"
  by (auto simp add: companyCard_buyCalls_def realCompanyCard_buyCalls_def)

lemma sellCalls_only_sell:
  "BuyShares i q \<notin> set (companyCard_sellCalls c)" "BuyShares i q \<notin> set (realCompanyCard_sellCalls c)"
  by (auto simp add: companyCard_sellCalls_def realCompanyCard_sellCalls_def)

lemma cardCalls_buy:
  assumes "BuyShares i q \<in> set (cardCalls kind c)"
  shows "i = cid c \<and> 0 < q \<and> sharesOwned c + q \<le> 100"
  using assms
  by (cases kind) (auto simp add: companyCard_buy_iff realCompanyCard_buy_iff sellCalls_only_sell)

lemma cardCalls_sell:
  assumes "SellShares i q \<in> set (cardCalls kind c)"
  shows "i = cid c \<and> 0 < q \<and> q \<le> sharesOwned c"
  using assms
  by (cases kind) (auto simp add: companyCard_sell_iff realCompanyCard_sell_iff buyCalls_only_buy)

lemma applyShareCall_in_range:
  assumes "ownershipInRange c" and "call \<in> set (cardCalls kind c)"
  shows "ownershipInRange (applyShareCall call c)"
proof (cases call)
  case (BuyShares i q)
  with assms(2) cardCalls_buy [of i q kind c] assms(1) show ?thesis
    by (simp add: ownershipInRange_def)
next
  case (SellShares i q)
  with assms(2) cardCalls_sell [of i q kind c] assms(1) show ?thesis
    by (simp add: ownershipInRange_def)
qed

lemma tradeSeq_in_range:
  "ownershipInRange c \<Longrightarrow> tradeSeq kind calls c = Some c' \<Longrightarrow> ownershipInRange c'"
proof (induction calls arbitrary: c)
  case Nil
  then show ?case by simp
next
  case (Cons call calls)
  from Cons.prems(2) have issued: "call \<in> set (cardCalls kind c)"
    and rest: "tradeSeq kind calls (applyShareCall call c) = Some c'"
    by (simp_all split: if_splits)
  from applyShareCall_in_range [OF Cons.prems(1) issued] rest show ?case
    by (rule Cons.IH)
qed

text \<open>
  C4 (as the code has it). The cards forward a request to buy \<open>q\<close> percent exactly when
  \<open>q\<close> is one of the steps on offer (5, 10, 20 on \<open>CompanyCard\<close>; 1, 5, 10 on
  \<open>RealCompanyCard\<close>) and \<open>sharesOwned + q \<le> 100\<close>. The cash plays no part: the
  modal hands \<open>currentCash\<close> to the card, and the calls are the same for every cash. The
  price shown is \<open>marketValue * 0.01\<close> per percent, so \<open>marketValue * (q / 100)\<close> for
  the request; whether the cash covers it is left to the function behind the callback.
\<close>

theorem buy_requests_forwarded:
  "(BuyShares i q \<in> set (companyCard_buyCalls c) \<longleftrightarrow>
      i = cid c \<and> q \<in> {5, 10, 20} \<and> sharesOwned c + q \<le> 100) \<and>
   (BuyShares i q \<in> set (modalCard_buyCalls cash c) \<longleftrightarrow>
      i = cid c \<and> q \<in> {1, 5, 10} \<and> sharesOwned c + q \<le> 100) \<and>
   modalCard_buyCalls cash c = modalCard_buyCalls cash' c \<and>
   q * costPerPercent c = marketValue c * (q / 100)"
  by (simp add: companyCard_buy_iff realCompanyCard_buy_iff modalCard_buyCalls_def
      costPerPercent_def)

theorem buy_without_funds_counterexample:
  "marketValue (holding 0) * (5 / 100) = 50000 \<and>
   BuyShares ''acme'' 5 \<in> set (companyCard_buyCalls (holding 0)) \<and>
   BuyShares ''acme'' 5 \<in> set (modalCard_buyCalls 0 (holding 0))"
  by (simp add: companyCard_buy_iff realCompanyCard_buy_iff modalCard_buyCalls_def holding_def)

lemma holding_simps [simp]: "sharesOwned (holding x) = x" "cid (holding x) = ''acme''"
  "(holding x)\<lparr>sharesOwned := y\<rparr> = holding y"
  by (simp_all add: holding_def)

text \<open>
  C5 (as the code has it). A buy of \<open>q\<close> percent can be issued only when
  \<open>sharesOwned + q \<le> 100\<close>, and a sell of \<open>q\<close> percent only when
  \<open>q \<le> sharesOwned\<close>. Beyond these limits nothing fails: the button is disabled or not
  rendered, a click on it makes no call, and no error comes back. With the ownership update the
  specification gives (a buy adds exactly \<open>q\<close>, a sell takes exactly \<open>q\<close> away), every
  sequence of trades issued from a card that starts with an ownership within \<open>[0, 100]\<close>
  ends with an ownership within \<open>[0, 100]\<close>.
\<close>

theorem ownership_stays_in_range:
  "(BuyShares i q \<in> set (cardCalls kind c) \<longrightarrow> sharesOwned c + q \<le> 100) \<and>
   (SellShares i q \<in> set (cardCalls kind c) \<longrightarrow> q \<le> sharesOwned c) \<and>
   (100 < sharesOwned c + q \<longrightarrow> clickBuy kind c q = []) \<and>
   (sharesOwned c < q \<longrightarrow> clickSell kind c q = []) \<and>
   (ownershipInRange c \<and> tradeSeq kind calls c = Some c' \<longrightarrow>
      0 \<le> sharesOwned c' \<and> sharesOwned c' \<le> 100)"
proof -
  have "100 < sharesOwned c + q \<Longrightarrow> clickBuy kind c q = []"
    using cardCalls_buy [of "cid c" q kind c] by (auto simp add: clickBuy_def)
  moreover have "sharesOwned c < q \<Longrightarrow> clickSell kind c q = []"
    using cardCalls_sell [of "cid c" q kind c] by (auto simp add: clickSell_def)
  moreover have "ownershipInRange c \<Longrightarrow> tradeSeq kind calls c = Some c' \<Longrightarrow>
      0 \<le> sharesOwned c' \<and> sharesOwned c' \<le> 100"
    using tradeSeq_in_range [of c kind calls c'] by (simp add: ownershipInRange_def)
  ultimately show ?thesis
    using cardCalls_buy [of i q kind c] cardCalls_sell [of i q kind c] by blast
qed

theorem ownership_stays_in_range_witness:
  "BuyShares ''acme'' 10 \<in> set (cardCalls VentureCard (holding 90)) \<and>
   SellShares ''acme'' 20 \<in> set (cardCalls VentureCard (holding 90)) \<and>
   BuyShares ''acme'' 20 \<notin> set (cardCalls VentureCard (holding 90)) \<and>
   ownershipInRange (holding 90) \<and>
   tradeSeq VentureCard [BuyShares ''acme'' 10, SellShares ''acme'' 20, SellShares ''acme'' 5]
     (holding 90) = Some (holding 75) \<and>
   0 \<le> sharesOwned (holding 75) \<and> sharesOwned (holding 75) \<le> 100"
proof -
  have a: "BuyShares ''acme'' 10 \<in> set (cardCalls VentureCard (holding 90))"
      "SellShares ''acme'' 20 \<in> set (cardCalls VentureCard (holding 90))"
      "BuyShares ''acme'' 20 \<notin> set (cardCalls VentureCard (holding 90))"
    by (simp_all add: companyCard_buy_iff companyCard_sell_iff sellCalls_only_sell buyCalls_only_buy)
  have b: "ownershipInRange (holding 90)" by (simp add: ownershipInRange_def)
  have c: "tradeSeq VentureCard [BuyShares ''acme'' 10, SellShares ''acme'' 20, SellShares ''acme'' 5]
     (holding 90) = Some (holding 75)"
    by (simp add: companyCard_buy_iff companyCard_sell_iff sellCalls_only_sell buyCalls_only_buy)
  from ownership_stays_in_range [of "''acme''" 10 VentureCard "holding 90"
        "[BuyShares ''acme'' 10, SellShares ''acme'' 20, SellShares ''acme'' 5]" "holding 75"] b c
  have "0 \<le> sharesOwned (holding 75) \<and> sharesOwned (holding 75) \<le> 100" by blast
  with a b c show ?thesis by blast
qed

theorem over_limit_trade_silent_counterexample:
  "100 < sharesOwned (holding 90) + 20 \<and>
   companyCard_buyButtons (holding 90) = [(5, False), (10, False), (20, True)] \<and>
   clickBuy VentureCard (holding 90) 20 = [] \<and>
   100 < sharesOwned (holding 95) + 10 \<and>
   realCompanyCard_buyCalls (holding 95) = [BuyShares ''acme'' 1, BuyShares ''acme'' 5] \<and>
   clickBuy ListedCard (holding 95) 10 = []"
proof -
  have "companyCard_buyButtons (holding 90) = [(5, False), (10, False), (20, True)]"
    by (simp add: companyCard_buyButtons_def sharesBuyable_def)
  moreover have "realCompanyCard_buyCalls (holding 95) = [BuyShares ''acme'' 1, BuyShares ''acme'' 5]"
    by (simp add: realCompanyCard_buyCalls_def sharesBuyable_def)
  moreover have "clickBuy VentureCard (holding 90) 20 = []"
    by (simp add: clickBuy_def companyCard_buy_iff sellCalls_only_sell)
  moreover have "clickBuy ListedCard (holding 95) 10 = []"
    by (simp add: clickBuy_def realCompanyCard_buy_iff sellCalls_only_sell)
  ultimately show ?thesis by simp
qed

subsection \<open>Starting a production\<close>









lemma studio_simps [simp]:
  "currentCash (studioProps cash) = cash"
  "budget (studioState t b) = b" "selectedProjectType (studioState t b) = t"
  "selectedCompanyId (studioState t b) = ''studio-1''"
  "mountedBoxOfficeState (studioProps cash) = studioState Movie 1000000"
  by (simp_all add: studioProps_def studioState_def mountedBoxOfficeState_def
      initialBoxOfficeState_def studio_def)

lemma studio_selected [simp]: "selectedCompany (studioProps cash) (studioState t b) = Some studio"
  by (simp add: selectedCompany_def studioProps_def studioState_def studio_def)




end
